theory Spec2Isabelle
  imports Complex_Main "HOL-Library.Sublist"
begin

section \<open>api-server.py: the sentiment endpoint\<close>

text \<open>
  \<^verbatim>\<open>analyze_sentiment\<close> (api-server.py, lines 127-157) lower-cases the request text,
  counts how many of six positive and six negative words occur in it as substrings,
  and derives a score, a label and a confidence from the two counts.

  Python's \<^verbatim>\<open>/\<close> on two ints raises \<^verbatim>\<open>ZeroDivisionError\<close> on a zero divisor; the model
  keeps that as a value. The quotient is modelled as an exact rational and the literals
  \<^verbatim>\<open>0.2\<close>, \<^verbatim>\<open>0.5\<close>, \<^verbatim>\<open>1.0\<close> as \<open>1/5\<close>, \<open>1/2\<close>, \<open>1\<close>. Both counts are at most six, so
  the only quotients that meet a threshold are \<open>3/2\<close>-ratios of the counts
  (\<open>(3 - 2) / 5\<close>, \<open>(6 - 4) / 10\<close> and their negatives), which a correctly rounded
  double division maps to the very double the literal \<^verbatim>\<open>0.2\<close> denotes; every other
  quotient is at least \<open>1/60\<close> away from a threshold. The comparisons therefore come out
  the same on doubles and on rationals.
\<close>

datatype py_error = ZeroDivisionError

record sentiment_response =
  score :: rat
  label :: string
  confidence :: rat

text \<open>\<^verbatim>\<open>str.lower()\<close>, on the ASCII letters.\<close>

definition lower_char :: "char \<Rightarrow> char" where
  "lower_char c =
     (if (65::nat) \<le> of_char c \<and> of_char c \<le> (90::nat)
      then char_of (of_char c + (32::nat)) else c)"

definition lower :: "string \<Rightarrow> string" where
  "lower s = map lower_char s"

text \<open>\<^verbatim>\<open>word in text\<close>: \<open>word\<close> occurs in \<open>text\<close> as a contiguous substring.\<close>

fun is_in :: "string \<Rightarrow> string \<Rightarrow> bool" where
  "is_in w [] = (w = [])"
| "is_in w (c # cs) = (prefix w (c # cs) \<or> is_in w cs)"

definition positive_words :: "string list" where
  "positive_words = [''good'', ''great'', ''excellent'', ''amazing'', ''love'', ''wonderful'']"

definition negative_words :: "string list" where
  "negative_words = [''bad'', ''terrible'', ''awful'', ''hate'', ''poor'', ''worst'']"

text \<open>\<^verbatim>\<open>sum(1 for word in words if word in text)\<close>.\<close>

definition count_in :: "string list \<Rightarrow> string \<Rightarrow> int" where
  "count_in ws t = int (length (filter (\<lambda>w. is_in w t) ws))"

text \<open>Python's true division of two ints.\<close>

definition true_div :: "int \<Rightarrow> int \<Rightarrow> py_error + rat" where
  "true_div a b = (if b = 0 then Inl ZeroDivisionError else Inr (of_int a / of_int b))"

definition label_of :: "rat \<Rightarrow> string" where
  "label_of s =
     (if s > 1 / 5 then ''positive''
      else if s < - (1 / 5) then ''negative''
      else ''neutral'')"

definition analyze_sentiment :: "string \<Rightarrow> py_error + sentiment_response" where
  "analyze_sentiment request_text =
     (let text = lower request_text;
          pos_count = count_in positive_words text;
          neg_count = count_in negative_words text;
          total = pos_count + neg_count
      in if total = 0
         then Inr \<lparr>score = 0, label = ''neutral'', confidence = 1 / 2\<rparr>
         else (case true_div (pos_count - neg_count) total of
                 Inl e \<Rightarrow> Inl e
               | Inr s \<Rightarrow>
                   Inr \<lparr>score = s, label = label_of s,
                        confidence = min (\<bar>s\<bar> + 1 / 2) 1\<rparr>))"

section \<open>ticru-cli.py: the status command\<close>

text \<open>
  \<^verbatim>\<open>status\<close> (ticru-cli.py, lines 237-281) probes two fixed URLs with
  \<^verbatim>\<open>requests.get(url, timeout=2)\<close>, each inside \<^verbatim>\<open>try: ... except:\<close>, and then reports
  whether \<^verbatim>\<open>dist\<close> and \<^verbatim>\<open>node_modules\<close> exist. The network call is the environment's: it
  either returns a response with a status code or raises, for instance \<^verbatim>\<open>Timeout\<close> or
  \<^verbatim>\<open>ConnectionError\<close>, and the \<^verbatim>\<open>import requests\<close> inside the \<^verbatim>\<open>try\<close> may raise
  \<^verbatim>\<open>ImportError\<close>. The bare \<^verbatim>\<open>except:\<close> catches whatever is raised. How long the call
  takes is not part of the model.
\<close>

datatype request_exception = ImportError | ConnectionError | Timeout | OtherException

datatype http_result = Response int | Raised request_exception

datatype probe_outcome = Reachable | Unhealthy | Unreachable

text \<open>One \<^verbatim>\<open>try\<close> block of \<^verbatim>\<open>status\<close>: lines 247-255 and again 258-266.\<close>

definition probe :: "http_result \<Rightarrow> probe_outcome" where
  "probe r =
     (case r of
        Response status_code \<Rightarrow> (if status_code = 200 then Reachable else Unhealthy)
      | Raised e \<Rightarrow> Unreachable)"

text \<open>
  What \<^verbatim>\<open>status\<close> reads: the answer of \<^verbatim>\<open>requests.get\<close> per URL, whether \<^verbatim>\<open>dist\<close>
  exists and how many entries \<^verbatim>\<open>rglob\<close> finds below it, and whether \<^verbatim>\<open>node_modules\<close>
  exists. It reads nothing else; the process handles of \<^verbatim>\<open>run\<close> are local variables
  of that command and out of its reach.
\<close>

record status_env =
  requests_get :: "string \<Rightarrow> http_result"
  dist_exists :: bool
  dist_files :: nat
  node_modules_exists :: bool

text \<open>The lines \<^verbatim>\<open>status\<close> echoes below its headings, in order.\<close>

datatype status_line =
    ApiServer probe_outcome
  | DevServer probe_outcome
  | BuildOutput "nat option"
  | NpmPackages bool

definition status :: "status_env \<Rightarrow> status_line list" where
  "status env =
     [ApiServer (probe (requests_get env ''http://localhost:8000/api/health'')),
      DevServer (probe (requests_get env ''http://localhost:5173'')),
      BuildOutput (if dist_exists env then Some (dist_files env) else None),
      NpmPackages (node_modules_exists env)]"

section \<open>build-system.py: the build pipeline\<close>

text \<open>
  \<^verbatim>\<open>build-system.py\<close> runs external commands through \<^verbatim>\<open>run_command\<close> and chains its step
  functions in \<^verbatim>\<open>main\<close> with \<^verbatim>\<open>success = success and step()\<close>. The model threads a state
  through every function: the set of paths that exist, the lines printed so far, and the
  trace of the step functions \<^verbatim>\<open>main\<close> has called with what each call did. The source has
  no variable for that trace; it records the calls of \<^verbatim>\<open>main\<close>, so that a theorem can say
  which steps ran.

  A function that may call \<^verbatim>\<open>sys.exit\<close> yields \<open>Inl (code, state)\<close> for the
  \<^verbatim>\<open>SystemExit\<close> and \<open>Inr (value, state)\<close> for a normal return.

  The environment is the shell: \<open>shell env command files\<close> is the return code of the
  command and the set of paths that exist once it has run. Text that the source
  interpolates from the environment (a version string, the command's stderr, the clock,
  a number of files) is left out of the printed line; the fixed part of every message is
  kept.
\<close>

datatype line = Header string | Success string | Error string | Info string | Print string

datatype outcome = Passed | Failed | Aborted

record build_state =
  files :: "string set"
  printed :: "line list"
  steps :: "(string \<times> outcome) list"

record build_env =
  shell :: "string \<Rightarrow> string set \<Rightarrow> int \<times> string set"

type_synonym 'a prog = "build_state \<Rightarrow> (int \<times> build_state) + ('a \<times> build_state)"

definition ret :: "'a \<Rightarrow> 'a prog" where
  "ret v st = Inr (v, st)"

definition bnd :: "'a prog \<Rightarrow> ('a \<Rightarrow> 'b prog) \<Rightarrow> 'b prog" where
  "bnd m f st = (case m st of Inl e \<Rightarrow> Inl e | Inr (v, st') \<Rightarrow> f v st')"

definition sys_exit :: "int \<Rightarrow> 'a prog" where
  "sys_exit code st = Inl (code, st)"

definition emit :: "line \<Rightarrow> unit prog" where
  "emit l st = Inr ((), st\<lparr>printed := printed st @ [l]\<rparr>)"

text \<open>Lines 24-36. The three lines of a header are one \<open>Header\<close>.\<close>

definition print_header :: "string \<Rightarrow> unit prog" where
  "print_header message = emit (Header message)"

definition print_success :: "string \<Rightarrow> unit prog" where
  "print_success message = emit (Success message)"

definition print_error :: "string \<Rightarrow> unit prog" where
  "print_error message = emit (Error message)"

definition print_info :: "string \<Rightarrow> unit prog" where
  "print_info message = emit (Info message)"

text \<open>\<^verbatim>\<open>os.path.exists(p)\<close> and \<^verbatim>\<open>Path(p).exists()\<close>; writing a file creates its path.\<close>

definition path_exists :: "string \<Rightarrow> bool prog" where
  "path_exists p st = Inr (p \<in> files st, st)"

definition write_file :: "string \<Rightarrow> unit prog" where
  "write_file p st = Inr ((), st\<lparr>files := insert p (files st)\<rparr>)"

text \<open>
  \<^verbatim>\<open>run_command\<close>, lines 38-54. \<^verbatim>\<open>subprocess.run(..., check=check)\<close> raises
  \<^verbatim>\<open>CalledProcessError\<close> only when \<^verbatim>\<open>check\<close> is true and the return code is not zero; the
  handler prints two error lines and, \<^verbatim>\<open>check\<close> being true, exits with code 1. In every
  other case the result is returned, of which the callers read the return code.
\<close>

definition run_command :: "build_env \<Rightarrow> string \<Rightarrow> bool \<Rightarrow> int prog" where
  "run_command env command check st =
     (let (returncode, fs) = shell env command (files st);
          st' = st\<lparr>files := fs\<rparr>
      in if check \<and> returncode \<noteq> 0
         then bnd (print_error (''Command failed: '' @ command))
                (\<lambda>_. bnd (print_error ''Error: '') (\<lambda>_. sys_exit 1)) st'
         else Inr (returncode, st'))"

text \<open>\<^verbatim>\<open>check_dependencies\<close>, lines 56-77: the loop over the four dependencies.\<close>

fun check_dependencies_loop ::
  "build_env \<Rightarrow> (string \<times> string) list \<Rightarrow> bool \<Rightarrow> bool prog" where
  "check_dependencies_loop env [] all_ok = ret all_ok"
| "check_dependencies_loop env ((name, command) # rest) all_ok =
     bnd (run_command env command False) (\<lambda>returncode.
       if returncode = 0
       then bnd (print_success (name @ '': ''))
              (\<lambda>_. check_dependencies_loop env rest all_ok)
       else bnd (print_error (name @ '': Not found''))
              (\<lambda>_. check_dependencies_loop env rest False))"

definition dependencies :: "(string \<times> string) list" where
  "dependencies =
     [(''node'', ''node --version''), (''npm'', ''npm --version''),
      (''python3'', ''python3 --version''), (''git'', ''git --version'')]"

definition check_dependencies :: "build_env \<Rightarrow> bool prog" where
  "check_dependencies env =
     bnd (print_header ''Checking Dependencies'')
       (\<lambda>_. check_dependencies_loop env dependencies True)"

text \<open>\<^verbatim>\<open>install_npm_dependencies\<close>, lines 79-86.\<close>

definition install_npm_dependencies :: "build_env \<Rightarrow> bool prog" where
  "install_npm_dependencies env =
     bnd (print_header ''Installing NPM Dependencies'') (\<lambda>_.
     bnd (print_info ''Running npm install...'') (\<lambda>_.
     bnd (run_command env ''npm install'' True) (\<lambda>returncode.
     bnd (if returncode = 0
          then print_success ''NPM dependencies installed successfully''
          else ret ()) (\<lambda>_.
     ret (returncode = 0)))))"

text \<open>\<^verbatim>\<open>install_python_dependencies\<close>, lines 88-99.\<close>

definition install_python_dependencies :: "build_env \<Rightarrow> bool prog" where
  "install_python_dependencies env =
     bnd (print_header ''Installing Python Dependencies'') (\<lambda>_.
     bnd (path_exists ''requirements.txt'') (\<lambda>found.
     if found
     then bnd (print_info ''Running pip install...'') (\<lambda>_.
          bnd (run_command env ''pip install -r requirements.txt'' True) (\<lambda>returncode.
          bnd (if returncode = 0
               then print_success ''Python dependencies installed successfully''
               else ret ()) (\<lambda>_.
          ret (returncode = 0))))
     else bnd (print_info ''No requirements.txt found, skipping'') (\<lambda>_. ret True)))"

text \<open>\<^verbatim>\<open>lint_code\<close>, lines 101-115: the command runs with \<^verbatim>\<open>check=False\<close>.\<close>

definition lint_code :: "build_env \<Rightarrow> bool prog" where
  "lint_code env =
     bnd (print_header ''Linting Code'') (\<lambda>_.
     bnd (path_exists ''package.json'') (\<lambda>found.
     if found
     then bnd (print_info ''Running ESLint...'') (\<lambda>_.
          bnd (run_command env ''npm run lint'' False) (\<lambda>returncode.
          if returncode = 0
          then bnd (print_success ''JavaScript/TypeScript linting passed'') (\<lambda>_. ret True)
          else bnd (print_error ''JavaScript/TypeScript linting failed'') (\<lambda>_. ret False)))
     else ret True))"

text \<open>\<^verbatim>\<open>type_check\<close>, lines 117-130: the command runs with \<^verbatim>\<open>check=False\<close>.\<close>

definition type_check :: "build_env \<Rightarrow> bool prog" where
  "type_check env =
     bnd (print_header ''Type Checking'') (\<lambda>_.
     bnd (path_exists ''tsconfig.json'') (\<lambda>found.
     if found
     then bnd (print_info ''Running TypeScript type check...'') (\<lambda>_.
          bnd (run_command env ''npm run type-check'' False) (\<lambda>returncode.
          if returncode = 0
          then bnd (print_success ''Type checking passed'') (\<lambda>_. ret True)
          else bnd (print_error ''Type checking failed'') (\<lambda>_. ret False)))
     else ret True))"

text \<open>\<^verbatim>\<open>build_frontend\<close>, lines 132-147.\<close>

definition build_frontend :: "build_env \<Rightarrow> bool prog" where
  "build_frontend env =
     bnd (print_header ''Building Frontend'') (\<lambda>_.
     bnd (print_info ''Running production build...'') (\<lambda>_.
     bnd (run_command env ''npm run build'' True) (\<lambda>returncode.
     if returncode = 0
     then bnd (print_success ''Frontend built successfully'') (\<lambda>_.
          bnd (path_exists ''dist'') (\<lambda>found.
          bnd (if found then print_success ''Build output: files in dist/'' else ret ()) (\<lambda>_.
          ret True)))
     else ret False)))"

text \<open>\<^verbatim>\<open>test_code\<close>, lines 149-153.\<close>

definition test_code :: "bool prog" where
  "test_code =
     bnd (print_header ''Running Tests'') (\<lambda>_.
     bnd (print_info ''Tests not configured yet'') (\<lambda>_. ret True))"

text \<open>
  \<^verbatim>\<open>generate_build_info\<close>, lines 155-173: the two git commands run with \<^verbatim>\<open>check=False\<close>
  and only their output is read.
\<close>

definition generate_build_info :: "build_env \<Rightarrow> bool prog" where
  "generate_build_info env =
     bnd (print_header ''Generating Build Info'') (\<lambda>_.
     bnd (run_command env ''git rev-parse HEAD'' False) (\<lambda>_.
     bnd (run_command env ''git rev-parse --abbrev-ref HEAD'' False) (\<lambda>_.
     bnd (path_exists ''dist'') (\<lambda>found.
     bnd (if found
          then bnd (write_file ''dist/build-info.json'')
                 (\<lambda>_. print_success ''Build info generated: dist/build-info.json'')
          else ret ()) (\<lambda>_.
     ret True)))))"

text \<open>\<^verbatim>\<open>clean_build\<close>, lines 175-187: the loop over the three paths.\<close>

fun clean_build_loop :: "build_env \<Rightarrow> string list \<Rightarrow> unit prog" where
  "clean_build_loop env [] = ret ()"
| "clean_build_loop env (path # rest) =
     bnd (path_exists path) (\<lambda>found.
     bnd (if found
          then bnd (print_info (''Removing '' @ path @ ''...'')) (\<lambda>_.
               bnd (run_command env (''rm -rf '' @ path) True) (\<lambda>_.
               print_success (''Removed '' @ path)))
          else ret ()) (\<lambda>_.
     clean_build_loop env rest))"

definition clean_build :: "build_env \<Rightarrow> bool prog" where
  "clean_build env =
     bnd (print_header ''Cleaning Build Artifacts'') (\<lambda>_.
     bnd (clean_build_loop env [''dist'', ''build'', ''node_modules/.cache'']) (\<lambda>_.
     ret True))"

text \<open>The parsed command line, lines 190-199.\<close>

record args =
  clean :: bool
  install :: bool
  lint :: bool
  type_check_flag :: bool
  build :: bool
  test :: bool
  all_flag :: bool

text \<open>
  A call of a step function from \<^verbatim>\<open>main\<close>: the function runs, and the trace gets its name
  with \<open>Passed\<close> when it returned true, \<open>Failed\<close> when it returned false and \<open>Aborted\<close>
  when it left through \<^verbatim>\<open>sys.exit\<close>.
\<close>

definition tracked :: "string \<Rightarrow> bool prog \<Rightarrow> bool prog" where
  "tracked name f st =
     (case f st of
        Inl (code, st') \<Rightarrow> Inl (code, st'\<lparr>steps := steps st' @ [(name, Aborted)]\<rparr>)
      | Inr (ok, st') \<Rightarrow>
          Inr (ok, st'\<lparr>steps := steps st' @ [(name, if ok then Passed else Failed)]\<rparr>))"

text \<open>\<^verbatim>\<open>success and f()\<close>: the call is made only when \<^verbatim>\<open>success\<close> is true.\<close>

definition and_then :: "bool \<Rightarrow> bool prog \<Rightarrow> bool prog" where
  "and_then success f = (if success then f else ret success)"

text \<open>\<^verbatim>\<open>main\<close>, lines 189-249.\<close>

definition main :: "build_env \<Rightarrow> args \<Rightarrow> unit prog" where
  "main env args0 =
     (let args = (if \<not> (clean args0 \<or> install args0 \<or> lint args0 \<or> type_check_flag args0
                        \<or> build args0 \<or> test args0 \<or> all_flag args0)
                  then args0\<lparr>all_flag := True\<rparr> else args0)
      in
     bnd (print_header ''Ticru.io Build System'') (\<lambda>_.
     let success = True in
     bnd (check_dependencies env) (\<lambda>deps_ok.
     bnd (if \<not> deps_ok
          then bnd (print_error ''Missing required dependencies'') (\<lambda>_. sys_exit 1)
          else ret ()) (\<lambda>_.
     bnd (if clean args \<or> all_flag args
          then and_then success (tracked ''clean_build'' (clean_build env))
          else ret success) (\<lambda>success.
     bnd (if install args \<or> all_flag args
          then bnd (and_then success
                      (tracked ''install_npm_dependencies'' (install_npm_dependencies env)))
                 (\<lambda>success. and_then success
                      (tracked ''install_python_dependencies''
                         (install_python_dependencies env)))
          else ret success) (\<lambda>success.
     bnd (if lint args \<or> all_flag args
          then and_then success (tracked ''lint_code'' (lint_code env))
          else ret success) (\<lambda>success.
     bnd (if type_check_flag args \<or> all_flag args
          then and_then success (tracked ''type_check'' (type_check env))
          else ret success) (\<lambda>success.
     bnd (if build args \<or> all_flag args
          then bnd (and_then success (tracked ''build_frontend'' (build_frontend env)))
                 (\<lambda>success.
                    if success
                    then and_then success
                           (tracked ''generate_build_info'' (generate_build_info env))
                    else ret success)
          else ret success) (\<lambda>success.
     bnd (if test args \<or> all_flag args
          then and_then success (tracked ''test_code'' test_code)
          else ret success) (\<lambda>success.
     bnd (print_header ''Build Summary'') (\<lambda>_.
     bnd (emit (Print ''Duration'')) (\<lambda>_.
     if success
     then bnd (print_success ''Build completed successfully!'') (\<lambda>_. sys_exit 0)
     else bnd (print_error ''Build failed!'') (\<lambda>_. sys_exit 1)))))))))))))"

text \<open>The command line without any option, and the state in which a run begins.\<close>

definition no_flags :: args where
  "no_flags = \<lparr>clean = False, install = False, lint = False, type_check_flag = False,
               build = False, test = False, all_flag = False\<rparr>"

definition start :: "string set \<Rightarrow> build_state" where
  "start fs = \<lparr>files = fs, printed = [], steps = []\<rparr>"

text \<open>
  The options after line 202-203 has switched \<^verbatim>\<open>--all\<close> on for an empty selection, and
  the step functions the options select, in the order in which \<^verbatim>\<open>main\<close> calls them.
\<close>

definition effective :: "args \<Rightarrow> args" where
  "effective a =
     (if \<not> (clean a \<or> install a \<or> lint a \<or> type_check_flag a
              \<or> build a \<or> test a \<or> all_flag a)
      then a\<lparr>all_flag := True\<rparr> else a)"

definition plan :: "args \<Rightarrow> string list" where
  "plan a =
     (if clean a \<or> all_flag a then [''clean_build''] else [])
     @ (if install a \<or> all_flag a
        then [''install_npm_dependencies'', ''install_python_dependencies''] else [])
     @ (if lint a \<or> all_flag a then [''lint_code''] else [])
     @ (if type_check_flag a \<or> all_flag a then [''type_check''] else [])
     @ (if build a \<or> all_flag a then [''build_frontend'', ''generate_build_info''] else [])
     @ (if test a \<or> all_flag a then [''test_code''] else [])"

text \<open>What a finished run shows: the summary, the missing-dependency error, the outcomes.\<close>

definition summary_printed :: "build_state \<Rightarrow> bool" where
  "summary_printed st = (Header ''Build Summary'' \<in> set (printed st))"

definition dependencies_missing :: "build_state \<Rightarrow> bool" where
  "dependencies_missing st = (Error ''Missing required dependencies'' \<in> set (printed st))"

definition all_passed :: "(string \<times> outcome) list \<Rightarrow> bool" where
  "all_passed xs = list_all (\<lambda>x. snd x = Passed) xs"

definition summary_lines :: "bool \<Rightarrow> line list" where
  "summary_lines ok =
     [Header ''Build Summary'', Print ''Duration'',
      if ok then Success ''Build completed successfully!'' else Error ''Build failed!'']"


subsection \<open>Predicates for reasoning about a run\<close>

text \<open>
  Neither the summary header nor the missing-dependency error has been printed.
\<close>

definition clean_out :: "build_state \<Rightarrow> bool" where
  "clean_out st = (\<not> summary_printed st \<and> \<not> dependencies_missing st)"

text \<open>
  A function is quiet when, called before either of those two lines is printed, it
  prints neither of them, leaves the trace of steps as it is, and exits with code 1 if
  it exits at all.
\<close>

definition quiet :: "'a prog \<Rightarrow> bool" where
  "quiet f =
     (\<forall>st st' c v. clean_out st \<longrightarrow>
        (f st = Inl (c, st') \<longrightarrow> c = 1 \<and> steps st' = steps st \<and> clean_out st')
      \<and> (f st = Inr (v, st') \<longrightarrow> steps st' = steps st \<and> clean_out st'))"

text \<open>
  The outcomes a step function can have: the two whose commands run with
  \<^verbatim>\<open>check=False\<close> may return false, the two without a checked command always pass, and
  the others may leave through \<^verbatim>\<open>sys.exit\<close>.
\<close>

definition allowed :: "string \<Rightarrow> outcome set" where
  "allowed n =
     (if n = ''lint_code'' \<or> n = ''type_check'' then {Passed, Failed}
      else if n = ''generate_build_info'' \<or> n = ''test_code'' then {Passed}
      else {Passed, Aborted})"

definition conforming :: "build_state \<Rightarrow> bool" where
  "conforming st = list_all (\<lambda>x. snd x \<in> allowed (fst x)) (steps st)"

definition conforms :: "string \<Rightarrow> bool prog \<Rightarrow> bool" where
  "conforms n f =
     ((\<forall>st c st'. f st = Inl (c, st') \<longrightarrow> Aborted \<in> allowed n)
      \<and> (\<forall>st st'. f st = Inr (False, st') \<longrightarrow> Failed \<in> allowed n))"

text \<open>
  A run that stopped at its last step: the steps are an initial part of \<open>full\<close>, all but
  the last passed, and the last has outcome \<open>oc\<close>.
\<close>

definition failed_run :: "string list \<Rightarrow> outcome \<Rightarrow> build_state \<Rightarrow> bool" where
  "failed_run full oc st =
     (steps st \<noteq> [] \<and> prefix (map fst (steps st)) full
      \<and> all_passed (butlast (steps st)) \<and> snd (last (steps st)) = oc)"

text \<open>
  The four ways a run ends: a dependency is missing; a step left through \<^verbatim>\<open>sys.exit\<close>; a
  step returned false and the summary reports the failure; every selected step passed.
\<close>

definition outcome_spec :: "string list \<Rightarrow> int \<Rightarrow> build_state \<Rightarrow> bool" where
  "outcome_spec full c st =
     (conforming st \<and>
      (c = 1 \<and> dependencies_missing st \<and> \<not> summary_printed st \<and> steps st = []
       \<or> c = 1 \<and> \<not> dependencies_missing st \<and> \<not> summary_printed st
           \<and> failed_run full Aborted st
       \<or> c = 1 \<and> \<not> dependencies_missing st \<and> summary_printed st
           \<and> suffix (summary_lines False) (printed st) \<and> failed_run full Failed st
       \<or> c = 0 \<and> \<not> dependencies_missing st \<and> summary_printed st
           \<and> suffix (summary_lines True) (printed st)
           \<and> map fst (steps st) = full \<and> all_passed (steps st)))"

text \<open>
  What holds between two steps of \<^verbatim>\<open>main\<close>, where \<open>p\<close> is the part of the selection dealt
  with so far and \<open>s\<close> the value of \<^verbatim>\<open>success\<close>.
\<close>

definition chain_inv :: "string list \<Rightarrow> string list \<Rightarrow> bool \<Rightarrow> build_state \<Rightarrow> bool" where
  "chain_inv full p s st =
     (clean_out st \<and> conforming st \<and> prefix p full
      \<and> (if s then map fst (steps st) = p \<and> all_passed (steps st)
          else failed_run p Failed st))"

text \<open>
  A triple with one postcondition for the normal return and one for the exit.
\<close>

definition hoare ::
  "(build_state \<Rightarrow> bool) \<Rightarrow> 'a prog \<Rightarrow> ('a \<Rightarrow> build_state \<Rightarrow> bool)
     \<Rightarrow> (int \<Rightarrow> build_state \<Rightarrow> bool) \<Rightarrow> bool" where
  "hoare P m Q E =
     (\<forall>st. P st \<longrightarrow>
        (\<forall>c st'. m st = Inl (c, st') \<longrightarrow> E c st')
      \<and> (\<forall>v st'. m st = Inr (v, st') \<longrightarrow> Q v st'))"

text \<open>
  A function that always returns normally.
\<close>

definition returns :: "'a prog \<Rightarrow> bool" where
  "returns f = (\<forall>st. \<exists>v st'. f st = Inr (v, st'))"

text \<open>
  The state before the first step.
\<close>

definition fresh :: "build_state \<Rightarrow> bool" where
  "fresh st = (clean_out st \<and> steps st = [])"

section \<open>ticru-cli.py: the run command\<close>

text \<open>
  \<^verbatim>\<open>run\<close> (ticru-cli.py, lines 42-100) creates two \<^verbatim>\<open>multiprocessing.Process\<close> objects,
  installs \<^verbatim>\<open>signal_handler\<close> for SIGINT and SIGTERM, starts both processes, and joins
  the backend and then the frontend. The model begins where both \<^verbatim>\<open>start()\<close> calls have
  returned and follows the command from one blocking call to the next: the two joins
  of the main body (lines 92 and 93, without a timeout) and the two joins of the
  handler (lines 78 and 79, with a timeout of five seconds).

  What the children do is the environment's. An event says that a child has exited
  with some code, that a signal has been delivered, or that the five seconds of the
  timed join now blocking have passed. SIGINT and SIGTERM run the same handler, so one
  event stands for both. A child whose command cannot be started fails inside the child
  process and shows as an exit with a non-zero code. \<^verbatim>\<open>terminate()\<close> only asks a child to
  end; whether and when it exits is again an event. The model counts the
  \<^verbatim>\<open>terminate()\<close> calls made on each child and keeps the two messages the command echoes
  after its banner.

  A handler runs on top of the call that was blocking and ends in \<^verbatim>\<open>sys.exit(0)\<close>. The
  \<^verbatim>\<open>SystemExit\<close> is not caught by \<^verbatim>\<open>except KeyboardInterrupt\<close>, so nothing below a handler
  resumes, and a signal that arrives during a handler starts the handler again on top
  of it. Line 83 replaces the default SIGINT handler before the \<^verbatim>\<open>try\<close> block is entered,
  so Ctrl+C raises no \<^verbatim>\<open>KeyboardInterrupt\<close> there and nothing else in the block raises
  one: the \<^verbatim>\<open>except\<close> clause (lines 94-100), which repeats the handler's calls without the
  exit, is not a branch of the model.
\<close>

datatype proc = Running | Exited int

datatype event = BackendExits int | FrontendExits int | Signal | JoinTimeout

text \<open>
  Where the command is: blocked in one of the four joins, returned from \<^verbatim>\<open>run\<close>, or
  left through \<^verbatim>\<open>sys.exit\<close>.
\<close>

datatype control =
    JoinBackend
  | JoinFrontend
  | HandlerJoinBackend
  | HandlerJoinFrontend
  | Returned
  | SysExit int

datatype message = ShuttingDown | ServersStopped

record supervisor =
  backend :: proc
  frontend :: proc
  backend_terminates :: nat
  frontend_terminates :: nat
  control :: control
  echoed :: "message list"

text \<open>Both processes started (lines 88-89), the main body about to join the backend.\<close>

definition started :: supervisor where
  "started = \<lparr>backend = Running, frontend = Running, backend_terminates = 0,
              frontend_terminates = 0, control = JoinBackend, echoed = []\<rparr>"

text \<open>
  Lines 92-93. A join of a process that has exited returns at once; otherwise the
  command blocks there.
\<close>

definition join_frontend :: "supervisor \<Rightarrow> supervisor" where
  "join_frontend s =
     (if frontend s = Running then s\<lparr>control := JoinFrontend\<rparr>
      else s\<lparr>control := Returned\<rparr>)"

definition join_backend :: "supervisor \<Rightarrow> supervisor" where
  "join_backend s =
     (if backend s = Running then s\<lparr>control := JoinBackend\<rparr> else join_frontend s)"

text \<open>\<^verbatim>\<open>signal_handler\<close>, lines 74-81, from its last line back to its first.\<close>

definition handler_exit :: "supervisor \<Rightarrow> supervisor" where
  "handler_exit s = s\<lparr>echoed := echoed s @ [ServersStopped], control := SysExit 0\<rparr>"

definition handler_join_frontend :: "supervisor \<Rightarrow> supervisor" where
  "handler_join_frontend s =
     (if frontend s = Running then s\<lparr>control := HandlerJoinFrontend\<rparr>
      else handler_exit s)"

definition handler_join_backend :: "supervisor \<Rightarrow> supervisor" where
  "handler_join_backend s =
     (if backend s = Running then s\<lparr>control := HandlerJoinBackend\<rparr>
      else handler_join_frontend s)"

definition signal_handler :: "supervisor \<Rightarrow> supervisor" where
  "signal_handler s =
     handler_join_backend
       (s\<lparr>echoed := echoed s @ [ShuttingDown],
          backend_terminates := Suc (backend_terminates s),
          frontend_terminates := Suc (frontend_terminates s)\<rparr>)"

definition finished :: "supervisor \<Rightarrow> bool" where
  "finished s = (case control s of Returned \<Rightarrow> True | SysExit c \<Rightarrow> True | _ \<Rightarrow> False)"

text \<open>The blocked join looks at its process again after a child has exited.\<close>

definition resume :: "supervisor \<Rightarrow> supervisor" where
  "resume s =
     (case control s of
        JoinBackend \<Rightarrow> join_backend s
      | JoinFrontend \<Rightarrow> join_frontend s
      | HandlerJoinBackend \<Rightarrow> handler_join_backend s
      | HandlerJoinFrontend \<Rightarrow> handler_join_frontend s
      | Returned \<Rightarrow> s
      | SysExit c \<Rightarrow> s)"

definition exits :: "proc \<Rightarrow> int \<Rightarrow> proc" where
  "exits p code = (case p of Running \<Rightarrow> Exited code | Exited c \<Rightarrow> Exited c)"

text \<open>
  One event. A timeout ends only the timed join that is blocking, one of the handler's;
  the joins of the main body have none.
\<close>

definition step :: "supervisor \<Rightarrow> event \<Rightarrow> supervisor" where
  "step s e =
     (if finished s then s
      else case e of
        BackendExits code \<Rightarrow> resume (s\<lparr>backend := exits (backend s) code\<rparr>)
      | FrontendExits code \<Rightarrow> resume (s\<lparr>frontend := exits (frontend s) code\<rparr>)
      | Signal \<Rightarrow> signal_handler s
      | JoinTimeout \<Rightarrow>
          (case control s of
             HandlerJoinBackend \<Rightarrow> handler_join_frontend s
           | HandlerJoinFrontend \<Rightarrow> handler_exit s
           | _ \<Rightarrow> s))"

definition run :: "event list \<Rightarrow> supervisor" where
  "run es = foldl step started es"

text \<open>
  The exit code of the command line tool once \<^verbatim>\<open>run\<close> is over: the argument of
  \<^verbatim>\<open>sys.exit\<close>, or 0 after a normal return of the command.
\<close>

definition exit_code :: "supervisor \<Rightarrow> int option" where
  "exit_code s =
     (case control s of Returned \<Rightarrow> Some 0 | SysExit c \<Rightarrow> Some c | _ \<Rightarrow> None)"

text \<open>How often the shutdown sequence was begun and how often it was completed.\<close>

definition shutdowns :: "supervisor \<Rightarrow> nat" where
  "shutdowns s = length (filter (\<lambda>m. m = ShuttingDown) (echoed s))"



subsection \<open>Predicates for reasoning about the run command\<close>

text \<open>
  The command in its main body, no signal handled so far.
\<close>

definition waiting :: "supervisor \<Rightarrow> bool" where
  "waiting s =
     (backend_terminates s = 0 \<and> frontend_terminates s = 0 \<and> echoed s = []
      \<and> control s =
          (if backend s = Running then JoinBackend
           else if frontend s = Running then JoinFrontend else Returned))"




section \<open>Properties of the sentiment endpoint\<close>

lemma count_in_nonneg: "0 \<le> count_in ws t"
  by (simp add: count_in_def)

lemma quotient_bounds:
  fixes p n :: int
  assumes "0 \<le> p" and "0 \<le> n" and "p + n \<noteq> 0"
  shows "- 1 \<le> (of_int (p - n) :: rat) / of_int (p + n)"
    and "(of_int (p - n) :: rat) / of_int (p + n) \<le> 1"
proof -
  from assms have pos: "(0::rat) < of_int (p + n)"
    by simp
  have "- (of_int (p + n) :: rat) \<le> of_int (p - n)"
    using assms(1) by simp
  then show "- 1 \<le> (of_int (p - n) :: rat) / of_int (p + n)"
    using pos by (simp add: pos_le_divide_eq)
  have "(of_int (p - n) :: rat) \<le> of_int (p + n)"
    using assms(2) by simp
  then show "(of_int (p - n) :: rat) / of_int (p + n) \<le> 1"
    using pos by (simp add: pos_divide_le_eq)
qed

lemma label_of_cases:
  "(label_of s = ''positive'') = (s > 1 / 5)"
  "(label_of s = ''negative'') = (s < - (1 / 5))"
  "(label_of s = ''neutral'') = (\<not> s > 1 / 5 \<and> \<not> s < - (1 / 5))"
  by (auto simp: label_of_def)

text \<open>
  C10. For every input text the analyzer returns a response, never the division
  error: the division is reached only with a non-zero total. The returned score lies in
  \<open>[-1, 1]\<close>, the confidence in \<open>[1/2, 1]\<close>, and the label is ``positive'' exactly when
  the score exceeds \<open>1/5\<close>, ``negative'' exactly when it is below \<open>-1/5\<close>, and
  ``neutral'' otherwise.
\<close>

theorem analyze_sentiment_total_and_bounded:
  "\<exists>r. analyze_sentiment t = Inr r
     \<and> - 1 \<le> score r \<and> score r \<le> 1
     \<and> 1 / 2 \<le> confidence r \<and> confidence r \<le> 1
     \<and> (label r = ''positive'') = (score r > 1 / 5)
     \<and> (label r = ''negative'') = (score r < - (1 / 5))
     \<and> (label r = ''neutral'') = (\<not> score r > 1 / 5 \<and> \<not> score r < - (1 / 5))"
proof -
  define p where "p = count_in positive_words (lower t)"
  define n where "n = count_in negative_words (lower t)"
  have p0: "0 \<le> p" and n0: "0 \<le> n"
    by (simp_all add: p_def n_def count_in_nonneg)
  show ?thesis
  proof (cases "p + n = 0")
    case True
    then have "analyze_sentiment t = Inr \<lparr>score = 0, label = ''neutral'', confidence = 1 / 2\<rparr>"
      by (simp add: analyze_sentiment_def Let_def p_def n_def)
    then show ?thesis by simp
  next
    case False
    define s where "s = (of_int (p - n) :: rat) / of_int (p + n)"
    have eq: "analyze_sentiment t =
                Inr \<lparr>score = s, label = label_of s, confidence = min (\<bar>s\<bar> + 1 / 2) 1\<rparr>"
      using False
      by (simp add: analyze_sentiment_def Let_def true_div_def p_def n_def s_def)
    have lo: "- 1 \<le> s" and hi: "s \<le> 1"
      unfolding s_def using quotient_bounds [OF p0 n0 False] by simp_all
    define c where "c = min (\<bar>s\<bar> + 1 / 2) 1"
    have c_lo: "1 / 2 \<le> c" and c_hi: "c \<le> 1"
      by (simp_all add: c_def)
    let ?r = "\<lparr>score = s, label = label_of s, confidence = c\<rparr>"
    have "analyze_sentiment t = Inr ?r"
      using eq by (simp add: c_def)
    moreover have "- 1 \<le> score ?r" "score ?r \<le> 1"
      using lo hi by simp_all
    moreover have "1 / 2 \<le> confidence ?r" "confidence ?r \<le> 1"
      using c_lo c_hi by simp_all
    moreover have "(label ?r = ''positive'') = (score ?r > 1 / 5)"
      "(label ?r = ''negative'') = (score ?r < - (1 / 5))"
      "(label ?r = ''neutral'') = (\<not> score ?r > 1 / 5 \<and> \<not> score ?r < - (1 / 5))"
      using label_of_cases [of s] by simp_all
    ultimately show ?thesis
      by blast
  qed
qed

text \<open>A text with two positive words and one negative word, in mixed case.\<close>

theorem analyze_sentiment_witness:
  "analyze_sentiment ''Good but bad, GREAT'' =
     Inr \<lparr>score = 1 / 3, label = ''positive'', confidence = 5 / 6\<rparr>
   \<and> (\<exists>r. analyze_sentiment ''Good but bad, GREAT'' = Inr r
          \<and> - 1 \<le> score r \<and> score r \<le> 1
          \<and> 1 / 2 \<le> confidence r \<and> confidence r \<le> 1
          \<and> (label r = ''positive'') = (score r > 1 / 5)
          \<and> (label r = ''negative'') = (score r < - (1 / 5))
          \<and> (label r = ''neutral'') = (\<not> score r > 1 / 5 \<and> \<not> score r < - (1 / 5)))"
proof
  show "analyze_sentiment ''Good but bad, GREAT'' =
          Inr \<lparr>score = 1 / 3, label = ''positive'', confidence = 5 / 6\<rparr>"
    by code_simp
  show "\<exists>r. analyze_sentiment ''Good but bad, GREAT'' = Inr r
          \<and> - 1 \<le> score r \<and> score r \<le> 1
          \<and> 1 / 2 \<le> confidence r \<and> confidence r \<le> 1
          \<and> (label r = ''positive'') = (score r > 1 / 5)
          \<and> (label r = ''negative'') = (score r < - (1 / 5))
          \<and> (label r = ''neutral'') = (\<not> score r > 1 / 5 \<and> \<not> score r < - (1 / 5))"
    by (rule analyze_sentiment_total_and_bounded)
qed

section \<open>Properties of the status command\<close>

text \<open>
  The outcome of one probe as a function of what \<^verbatim>\<open>requests.get\<close> did: whatever is
  raised is reported as Unreachable, status code 200 as Reachable, every other status
  code as Unhealthy. How long the call takes before it returns or raises is decided by
  the library and the clock, neither of which this embedding contains, so the time
  bound of C8 is not stated here.
\<close>

lemma probe_outcomes:
  "probe (Raised e) = Unreachable
   \<and> (probe r = Unreachable) = (\<exists>x. r = Raised x)
   \<and> (probe r = Reachable) = (r = Response 200)
   \<and> (probe r = Unhealthy) = (\<exists>c. r = Response c \<and> c \<noteq> 200)"
  by (cases r) (auto simp: probe_def)

text \<open>The API server answers 503 and nothing listens on the dev server's port.\<close>

lemma status_example:
  "status \<lparr>requests_get = (\<lambda>url. if url = ''http://localhost:5173''
                                    then Raised ConnectionError else Response 503),
               dist_exists = False, dist_files = 0, node_modules_exists = True\<rparr>
       = [ApiServer Unhealthy, DevServer Unreachable, BuildOutput None, NpmPackages True]"
  by (simp add: status_def probe_def)

section \<open>Properties of the build pipeline\<close>

subsection \<open>The step functions are quiet\<close>

lemma quietD_exit:
  "quiet f \<Longrightarrow> clean_out st \<Longrightarrow> f st = Inl (c, st')
   \<Longrightarrow> c = 1 \<and> steps st' = steps st \<and> clean_out st'"
  unfolding quiet_def by blast

lemma quietD_return:
  "quiet f \<Longrightarrow> clean_out st \<Longrightarrow> f st = Inr (v, st')
   \<Longrightarrow> steps st' = steps st \<and> clean_out st'"
  unfolding quiet_def by blast

lemma quiet_ret: "quiet (ret v)"
  by (simp add: quiet_def ret_def)

lemma bnd_Inl:
  "bnd m f st = Inl e \<Longrightarrow>
     m st = Inl e \<or> (\<exists>v st1. m st = Inr (v, st1) \<and> f v st1 = Inl e)"
  by (auto simp: bnd_def split: sum.splits)

lemma bnd_Inr:
  "bnd m f st = Inr r \<Longrightarrow> \<exists>v st1. m st = Inr (v, st1) \<and> f v st1 = Inr r"
  by (auto simp: bnd_def split: sum.splits)

lemma quiet_bnd:
  assumes m: "quiet m" and f: "\<And>v. quiet (f v)"
  shows "quiet (bnd m f)"
  unfolding quiet_def
proof (intro allI impI)
  fix st st' c v
  assume c0: "clean_out st"
  have exit: "c = 1 \<and> steps st' = steps st \<and> clean_out st'"
    if eq: "bnd m f st = Inl (c, st')"
    using bnd_Inl [OF eq]
  proof
    assume "m st = Inl (c, st')"
    with m c0 show ?thesis by (rule quietD_exit)
  next
    assume "\<exists>v st1. m st = Inr (v, st1) \<and> f v st1 = Inl (c, st')"
    then obtain w st1 where 1: "m st = Inr (w, st1)" and 2: "f w st1 = Inl (c, st')"
      by blast
    from quietD_return [OF m c0 1] have 3: "steps st1 = steps st" "clean_out st1"
      by simp_all
    from quietD_exit [OF f 3(2) 2] 3(1) show ?thesis
      by simp
  qed
  have return: "steps st' = steps st \<and> clean_out st'"
    if eq: "bnd m f st = Inr (v, st')"
  proof -
    from bnd_Inr [OF eq] obtain w st1
      where 1: "m st = Inr (w, st1)" and 2: "f w st1 = Inr (v, st')"
      by blast
    from quietD_return [OF m c0 1] have 3: "steps st1 = steps st" "clean_out st1"
      by simp_all
    from quietD_return [OF f 3(2) 2] 3(1) show ?thesis
      by simp
  qed
  from exit return
  show "(bnd m f st = Inl (c, st') \<longrightarrow> c = 1 \<and> steps st' = steps st \<and> clean_out st')
      \<and> (bnd m f st = Inr (v, st') \<longrightarrow> steps st' = steps st \<and> clean_out st')"
    by blast
qed

lemma quiet_if: "(c \<Longrightarrow> quiet a) \<Longrightarrow> (\<not> c \<Longrightarrow> quiet b) \<Longrightarrow> quiet (if c then a else b)"
  by simp

lemma quiet_emit:
  "l \<noteq> Header ''Build Summary'' \<Longrightarrow> l \<noteq> Error ''Missing required dependencies'' \<Longrightarrow> quiet (emit l)"
  by (auto simp: quiet_def emit_def clean_out_def summary_printed_def dependencies_missing_def)

lemma quiet_prints:
  "m \<noteq> ''Build Summary'' \<Longrightarrow> quiet (print_header m)"
  "quiet (print_success m)"
  "quiet (print_info m)"
  "m \<noteq> ''Missing required dependencies'' \<Longrightarrow> quiet (print_error m)"
  by (simp_all add: print_header_def print_success_def print_info_def print_error_def quiet_emit)

lemma quiet_path_exists: "quiet (path_exists p)"
  by (simp add: quiet_def path_exists_def clean_out_def summary_printed_def dependencies_missing_def)

lemma quiet_write_file: "quiet (write_file p)"
  by (simp add: quiet_def write_file_def clean_out_def summary_printed_def dependencies_missing_def)

lemma quiet_sys_exit_1: "quiet (sys_exit 1)"
  by (simp add: quiet_def sys_exit_def)

lemma run_command_cases:
  "run_command env command check st =
     (if check \<and> fst (shell env command (files st)) \<noteq> 0
      then Inl (1, st\<lparr>files := snd (shell env command (files st)),
                       printed := printed st @ [Error (''Command failed: '' @ command),
                                                Error ''Error: '']\<rparr>)
      else Inr (fst (shell env command (files st)),
                st\<lparr>files := snd (shell env command (files st))\<rparr>))"
  by (simp add: run_command_def Let_def bnd_def print_error_def emit_def sys_exit_def
      split: prod.splits)

lemmas build_simps =
  main_def Let_def bnd_def ret_def sys_exit_def emit_def print_header_def print_success_def
  print_error_def print_info_def path_exists_def write_file_def run_command_cases
  check_dependencies_def dependencies_def install_npm_dependencies_def
  install_python_dependencies_def lint_code_def type_check_def build_frontend_def
  test_code_def generate_build_info_def clean_build_def tracked_def and_then_def
  no_flags_def start_def

lemma quiet_run_command: "quiet (run_command env command check)"
  unfolding quiet_def run_command_cases
  by (auto simp: clean_out_def summary_printed_def dependencies_missing_def)

lemmas quiet_intros =
  quiet_bnd quiet_if quiet_ret quiet_prints quiet_path_exists quiet_write_file
  quiet_run_command

lemma quiet_check_dependencies_loop: "quiet (check_dependencies_loop env ds ok)"
  by (induction env ds ok rule: check_dependencies_loop.induct)
     (auto intro!: quiet_intros)

lemma quiet_check_dependencies: "quiet (check_dependencies env)"
  unfolding check_dependencies_def
  by (intro quiet_intros quiet_check_dependencies_loop) simp_all

lemma quiet_clean_build_loop: "quiet (clean_build_loop env ps)"
  by (induction env ps rule: clean_build_loop.induct) (auto intro!: quiet_intros)

lemma quiet_clean_build: "quiet (clean_build env)"
  unfolding clean_build_def
  by (intro quiet_intros quiet_clean_build_loop) simp_all

lemma quiet_install_npm_dependencies: "quiet (install_npm_dependencies env)"
  unfolding install_npm_dependencies_def by (intro quiet_intros) simp_all

lemma quiet_install_python_dependencies: "quiet (install_python_dependencies env)"
  unfolding install_python_dependencies_def by (intro quiet_intros) simp_all

lemma quiet_lint_code: "quiet (lint_code env)"
  unfolding lint_code_def by (intro quiet_intros) simp_all

lemma quiet_type_check: "quiet (type_check env)"
  unfolding type_check_def by (intro quiet_intros) simp_all

lemma quiet_build_frontend: "quiet (build_frontend env)"
  unfolding build_frontend_def by (intro quiet_intros) simp_all

lemma quiet_generate_build_info: "quiet (generate_build_info env)"
  unfolding generate_build_info_def by (intro quiet_intros) simp_all

lemma quiet_test_code: "quiet test_code"
  unfolding test_code_def by (intro quiet_intros) simp_all

subsection \<open>Triples and the steps of the chain\<close>

lemma hoareI:
  assumes "\<And>st c st'. P st \<Longrightarrow> m st = Inl (c, st') \<Longrightarrow> E c st'"
    and "\<And>st v st'. P st \<Longrightarrow> m st = Inr (v, st') \<Longrightarrow> Q v st'"
  shows "hoare P m Q E"
  using assms unfolding hoare_def by blast

lemma hoare_exit: "hoare P m Q E \<Longrightarrow> P st \<Longrightarrow> m st = Inl (c, st') \<Longrightarrow> E c st'"
  unfolding hoare_def by blast

lemma hoare_return: "hoare P m Q E \<Longrightarrow> P st \<Longrightarrow> m st = Inr (v, st') \<Longrightarrow> Q v st'"
  unfolding hoare_def by blast

lemma hoare_bnd:
  assumes m: "hoare P m Q E" and f: "\<And>v. hoare (Q v) (f v) R E"
  shows "hoare P (bnd m f) R E"
proof (rule hoareI)
  fix st c st' assume p: "P st" and eq: "bnd m f st = Inl (c, st')"
  from bnd_Inl [OF eq] show "E c st'"
  proof
    assume "m st = Inl (c, st')"
    with m p show ?thesis by (rule hoare_exit)
  next
    assume "\<exists>v st1. m st = Inr (v, st1) \<and> f v st1 = Inl (c, st')"
    then obtain w st1 where 1: "m st = Inr (w, st1)" and 2: "f w st1 = Inl (c, st')"
      by blast
    from hoare_exit [OF f hoare_return [OF m p 1] 2] show ?thesis .
  qed
next
  fix st v st' assume p: "P st" and eq: "bnd m f st = Inr (v, st')"
  from bnd_Inr [OF eq] obtain w st1
    where 1: "m st = Inr (w, st1)" and 2: "f w st1 = Inr (v, st')"
    by blast
  from hoare_return [OF f hoare_return [OF m p 1] 2] show "R v st'" .
qed

lemma hoare_ret: "hoare (Q v) (ret v) Q E"
  by (simp add: hoare_def ret_def)

lemma failed_run_mono:
  "failed_run p oc st \<Longrightarrow> prefix p q \<Longrightarrow> failed_run q oc st"
  unfolding failed_run_def by (meson prefix_order.trans)

lemma clean_out_steps_update [simp]: "clean_out (st\<lparr>steps := xs\<rparr>) = clean_out st"
  by (simp add: clean_out_def summary_printed_def dependencies_missing_def)

lemma conforming_printed_update [simp]:
  "conforming (st\<lparr>printed := ls\<rparr>) = conforming st"
  by (simp add: conforming_def)

lemma conforming_snoc:
  "steps st' = steps st @ [(n, oc)] \<Longrightarrow> conforming st \<Longrightarrow> oc \<in> allowed n
   \<Longrightarrow> conforming st'"
  by (simp add: conforming_def)

lemma Passed_allowed [simp]: "Passed \<in> allowed n"
  by (simp add: allowed_def)

lemma hoare_step:
  assumes q: "quiet f" and cf: "conforms n f" and pre: "prefix (p @ [n]) full"
  shows "hoare (chain_inv full p s) (and_then s (tracked n f)) (chain_inv full (p @ [n])) (outcome_spec full)"
proof (cases s)
  case False
  have "prefix p (p @ [n])" by simp
  then show ?thesis
    using False pre
    by (auto simp: hoare_def and_then_def ret_def chain_inv_def intro: failed_run_mono)
next
  case True
  show ?thesis
  proof (rule hoareI)
    fix st c st'
    assume i: "chain_inv full p s st" and eq: "and_then s (tracked n f) st = Inl (c, st')"
    from eq True obtain st1 where 1: "f st = Inl (c, st1)"
      and 2: "st' = st1\<lparr>steps := steps st1 @ [(n, Aborted)]\<rparr>"
      by (auto simp: and_then_def tracked_def split: sum.splits)
    from i have c0: "clean_out st" by (simp add: chain_inv_def)
    from quietD_exit [OF q c0 1] have 3: "c = 1" "steps st1 = steps st" "clean_out st1"
      by simp_all
    from i True have 4: "map fst (steps st) = p" "all_passed (steps st)"
      by (simp_all add: chain_inv_def)
    from i have 5: "conforming st" by (simp add: chain_inv_def)
    from cf 1 have 6: "Aborted \<in> allowed n"
      unfolding conforms_def by blast
    have "failed_run full Aborted st'"
      using 2 3 4 pre by (simp add: failed_run_def)
    moreover have "clean_out st'" using 2 3 by simp
    moreover have "conforming st'"
      using 2 3 5 6 by (simp add: conforming_def)
    ultimately show "outcome_spec full c st'"
      using 3(1) by (simp add: outcome_spec_def clean_out_def)
  next
    fix st v st'
    assume i: "chain_inv full p s st" and eq: "and_then s (tracked n f) st = Inr (v, st')"
    from eq True obtain st1 where 1: "f st = Inr (v, st1)"
      and 2: "st' = st1\<lparr>steps := steps st1 @ [(n, if v then Passed else Failed)]\<rparr>"
      by (auto simp: and_then_def tracked_def split: sum.splits)
    from i have c0: "clean_out st" by (simp add: chain_inv_def)
    from quietD_return [OF q c0 1] have 3: "steps st1 = steps st" "clean_out st1"
      by simp_all
    from i True have 4: "map fst (steps st) = p" "all_passed (steps st)"
      by (simp_all add: chain_inv_def)
    from i have 5: "conforming st" by (simp add: chain_inv_def)
    have 6: "(if v then Passed else Failed) \<in> allowed n"
    proof (cases v)
      case True
      then show ?thesis by simp
    next
      case False
      with cf 1 show ?thesis
        unfolding conforms_def by auto
    qed
    have "conforming st'"
      using 2 3 5 6 by (simp add: conforming_def)
    then show "chain_inv full (p @ [n]) v st'"
      using 2 3 4 pre by (simp add: chain_inv_def failed_run_def all_passed_def)
  qed
qed

lemma hoare_block1:
  assumes "quiet f" and "conforms n f" and "c \<Longrightarrow> prefix (p @ [n]) full"
  shows "hoare (chain_inv full p s) (if c then and_then s (tracked n f) else ret s)
           (chain_inv full (p @ (if c then [n] else []))) (outcome_spec full)"
  using assms by (simp add: hoare_step hoare_ret)

lemma hoare_block2:
  assumes "quiet f" and "conforms n f" and "quiet g" and "conforms k g"
    and "c \<Longrightarrow> prefix (p @ [n, k]) full"
  shows "hoare (chain_inv full p s)
           (if c then bnd (and_then s (tracked n f)) (\<lambda>s. and_then s (tracked k g)) else ret s)
           (chain_inv full (p @ (if c then [n, k] else []))) (outcome_spec full)"
proof (cases c)
  case False
  then show ?thesis by (simp add: hoare_ret)
next
  case True
  with assms(5) have 2: "prefix ((p @ [n]) @ [k]) full" by simp
  then have 1: "prefix (p @ [n]) full"
    using append_prefixD by blast
  have "hoare (chain_inv full p s) (bnd (and_then s (tracked n f)) (\<lambda>s. and_then s (tracked k g)))
          (chain_inv full ((p @ [n]) @ [k])) (outcome_spec full)"
    by (rule hoare_bnd [OF hoare_step [OF assms(1,2) 1] hoare_step [OF assms(3,4) 2]])
  with True show ?thesis by simp
qed

lemma returns_ret: "returns (ret v)"
  by (simp add: returns_def ret_def)

lemma returns_bnd: "returns m \<Longrightarrow> (\<And>v. returns (f v)) \<Longrightarrow> returns (bnd m f)"
  unfolding returns_def bnd_def
proof
  fix st
  assume m: "\<forall>st. \<exists>v st'. m st = Inr (v, st')" and f: "\<And>v. \<forall>st. \<exists>w st'. f v st = Inr (w, st')"
  from m obtain v st1 where 1: "m st = Inr (v, st1)" by blast
  from f obtain w st2 where 2: "f v st1 = Inr (w, st2)" by blast
  from 1 2 show "\<exists>v st'. (case m st of Inl e \<Rightarrow> Inl e | Inr (v, st') \<Rightarrow> f v st') = Inr (v, st')"
    by simp
qed

lemma returns_emit: "returns (emit l)"
  by (simp add: returns_def emit_def)

lemma returns_prints:
  "returns (print_header m)" "returns (print_success m)"
  "returns (print_info m)" "returns (print_error m)"
  by (simp_all add: print_header_def print_success_def print_info_def print_error_def
      returns_emit)

lemma returns_run_command_unchecked: "returns (run_command env command False)"
  by (simp add: returns_def run_command_cases)

lemma returns_check_dependencies_loop: "returns (check_dependencies_loop env ds ok)"
  by (induction env ds ok rule: check_dependencies_loop.induct)
     (auto intro!: returns_bnd returns_ret returns_prints returns_run_command_unchecked)

lemma returns_check_dependencies: "returns (check_dependencies env)"
  unfolding check_dependencies_def
  by (intro returns_bnd returns_prints returns_check_dependencies_loop)

lemma hoare_quiet_returns:
  assumes "quiet f" and "returns f"
  shows "hoare fresh f (\<lambda>_. fresh) E"
proof (rule hoareI)
  fix st c st' assume "fresh st" and "f st = Inl (c, st')"
  with assms(2) show "E c st'"
    by (metis returns_def sum.distinct(1))
next
  fix st v st' assume "fresh st" and "f st = Inr (v, st')"
  with quietD_return [OF assms(1)] show "fresh st'"
    by (metis fresh_def)
qed

lemma hoare_dependency_gate:
  "hoare fresh
     (if \<not> deps_ok
      then bnd (print_error ''Missing required dependencies'') (\<lambda>_. sys_exit 1)
      else ret ())
     (\<lambda>_. chain_inv full [] True) (outcome_spec full)"
  by (auto simp: hoare_def fresh_def bnd_def print_error_def emit_def sys_exit_def ret_def
      chain_inv_def outcome_spec_def clean_out_def summary_printed_def dependencies_missing_def
      all_passed_def conforming_def)

lemma failed_run_printed_update [simp]:
  "failed_run full oc (st\<lparr>printed := ls\<rparr>) = failed_run full oc st"
  by (simp add: failed_run_def)

lemma hoare_summary:
  "hoare (chain_inv full full s)
     (bnd (print_header ''Build Summary'') (\<lambda>_.
      bnd (emit (Print ''Duration'')) (\<lambda>_.
      if s
      then bnd (print_success ''Build completed successfully!'') (\<lambda>_. sys_exit 0)
      else bnd (print_error ''Build failed!'') (\<lambda>_. sys_exit 1))))
     Q (outcome_spec full)"
  by (auto simp: hoare_def bnd_def print_header_def print_success_def print_error_def
      emit_def sys_exit_def chain_inv_def outcome_spec_def clean_out_def summary_printed_def
      dependencies_missing_def summary_lines_def suffix_def)

lemma hoare_block2_guarded:
  assumes "quiet f" and "conforms n f" and "quiet g" and "conforms k g"
    and "c \<Longrightarrow> prefix (p @ [n, k]) full"
  shows "hoare (chain_inv full p s)
           (if c then bnd (and_then s (tracked n f))
                        (\<lambda>s. if s then and_then s (tracked k g) else ret s)
            else ret s)
           (chain_inv full (p @ (if c then [n, k] else []))) (outcome_spec full)"
proof -
  have "(\<lambda>s. if s then and_then s (tracked k g) else ret s) = (\<lambda>s. and_then s (tracked k g))"
    by (rule ext) (simp add: and_then_def)
  moreover have "hoare (chain_inv full p s)
           (if c then bnd (and_then s (tracked n f)) (\<lambda>s. and_then s (tracked k g)) else ret s)
           (chain_inv full (p @ (if c then [n, k] else []))) (outcome_spec full)"
    using assms by (rule hoare_block2)
  ultimately show ?thesis
    by (simp only:)
qed

lemma hoare_pre: "hoare P m Q E \<Longrightarrow> (\<And>st. P' st \<Longrightarrow> P st) \<Longrightarrow> hoare P' m Q E"
  unfolding hoare_def by blast

lemma returns_path_exists: "returns (path_exists p)"
  by (simp add: returns_def path_exists_def)

lemma returns_write_file: "returns (write_file p)"
  by (simp add: returns_def write_file_def)

lemma returns_if: "(c \<Longrightarrow> returns a) \<Longrightarrow> (\<not> c \<Longrightarrow> returns b) \<Longrightarrow> returns (if c then a else b)"
  by simp

lemmas returns_intros =
  returns_bnd returns_if returns_ret returns_prints returns_path_exists returns_write_file
  returns_run_command_unchecked

lemma returns_not_exit: "returns f \<Longrightarrow> f st \<noteq> Inl e"
  unfolding returns_def by (metis sum.distinct(1))

lemma conforms_lint_code: "conforms ''lint_code'' (lint_code env)"
proof -
  have "returns (lint_code env)"
    unfolding lint_code_def by (intro returns_intros)
  then show ?thesis
    by (simp add: conforms_def returns_not_exit allowed_def)
qed

lemma conforms_type_check: "conforms ''type_check'' (type_check env)"
proof -
  have "returns (type_check env)"
    unfolding type_check_def by (intro returns_intros)
  then show ?thesis
    by (simp add: conforms_def returns_not_exit allowed_def)
qed

lemma test_code_result:
  "test_code st =
     Inr (True, st\<lparr>printed := printed st @ [Header ''Running Tests'',
                                              Info ''Tests not configured yet'']\<rparr>)"
  by (simp add: test_code_def bnd_def print_header_def print_info_def emit_def ret_def)

lemma conforms_test_code: "conforms ''test_code'' test_code"
  by (simp add: conforms_def test_code_result)

lemma generate_build_info_True:
  "\<exists>st'. generate_build_info env st = Inr (True, st')"
  by (simp add: generate_build_info_def bnd_def print_header_def print_success_def emit_def
      ret_def run_command_cases path_exists_def write_file_def)

lemma conforms_generate_build_info:
  "conforms ''generate_build_info'' (generate_build_info env)"
  unfolding conforms_def
  using generate_build_info_True [of env] by (metis Inl_Inr_False Pair_inject sum.inject(2))

lemma conforms_aborting:
  "n \<noteq> ''lint_code'' \<Longrightarrow> n \<noteq> ''type_check'' \<Longrightarrow> n \<noteq> ''generate_build_info''
   \<Longrightarrow> n \<noteq> ''test_code'' \<Longrightarrow> (\<And>st st'. f st \<noteq> Inr (False, st')) \<Longrightarrow> conforms n f"
  by (simp add: conforms_def allowed_def)

lemma install_npm_dependencies_not_False:
  "install_npm_dependencies env st \<noteq> Inr (False, st')"
  by (simp add: install_npm_dependencies_def bnd_def print_header_def print_info_def
      print_success_def emit_def ret_def run_command_cases)

lemma install_python_dependencies_not_False:
  "install_python_dependencies env st \<noteq> Inr (False, st')"
  by (simp add: install_python_dependencies_def bnd_def print_header_def print_info_def
      print_success_def emit_def ret_def run_command_cases path_exists_def)

lemma build_frontend_not_False:
  "build_frontend env st \<noteq> Inr (False, st')"
  by (simp add: build_frontend_def bnd_def print_header_def print_info_def
      print_success_def emit_def ret_def run_command_cases path_exists_def)

lemma clean_build_not_False:
  "clean_build env st \<noteq> Inr (False, st')"
proof
  assume "clean_build env st = Inr (False, st')"
  then obtain v st1 where "ret True st1 = Inr (False, st')"
    unfolding clean_build_def by (blast dest: bnd_Inr)
  then show False by (simp add: ret_def)
qed

subsection \<open>The run as a whole\<close>

lemma main_hoare:
  "hoare fresh (main env a) (\<lambda>_ _. False) (outcome_spec (plan (effective a)))"
  unfolding main_def effective_def [symmetric] Let_def
  apply (rule hoare_bnd)
   apply (rule hoare_quiet_returns)
    apply (rule quiet_prints, simp)
   apply (rule returns_prints)
  apply (rule hoare_bnd)
   apply (rule hoare_quiet_returns)
    apply (rule quiet_check_dependencies)
   apply (rule returns_check_dependencies)
  apply (rule hoare_bnd)
   apply (rule hoare_dependency_gate)
  apply (rule hoare_bnd)
   apply (rule hoare_block1)
    apply (rule quiet_clean_build)
    apply (rule conforms_aborting; simp add: clean_build_not_False)
   apply (simp add: plan_def)
  apply (rule hoare_bnd)
   apply (rule hoare_block2)
      apply (rule quiet_install_npm_dependencies)
      apply (rule conforms_aborting; simp add: install_npm_dependencies_not_False)
     apply (rule quiet_install_python_dependencies)
    apply (rule conforms_aborting; simp add: install_python_dependencies_not_False)
   apply (simp add: plan_def)
  apply (rule hoare_bnd)
   apply (rule hoare_block1)
    apply (rule quiet_lint_code)
    apply (rule conforms_lint_code)
   apply (simp add: plan_def)
  apply (rule hoare_bnd)
   apply (rule hoare_block1)
    apply (rule quiet_type_check)
    apply (rule conforms_type_check)
   apply (simp add: plan_def)
  apply (rule hoare_bnd)
   apply (rule hoare_block2_guarded)
      apply (rule quiet_build_frontend)
      apply (rule conforms_aborting; simp add: build_frontend_not_False)
     apply (rule quiet_generate_build_info)
    apply (rule conforms_generate_build_info)
   apply (simp add: plan_def)
  apply (rule hoare_bnd)
   apply (rule hoare_block1)
    apply (rule quiet_test_code)
    apply (rule conforms_test_code)
   apply (simp add: plan_def)
  apply (rule hoare_pre)
   apply (rule hoare_summary)
  apply (simp add: plan_def)
  done

lemma fresh_start: "fresh (start fs)"
  by (simp add: fresh_def start_def clean_out_def summary_printed_def dependencies_missing_def)

lemma main_spec:
  "\<exists>c st. main env a (start fs) = Inl (c, st) \<and> outcome_spec (plan (effective a)) c st"
proof (cases "main env a (start fs)")
  case (Inl e)
  obtain c st where e: "e = (c, st)" by (cases e)
  from hoare_exit [OF main_hoare fresh_start] Inl e
  have "outcome_spec (plan (effective a)) c st" by simp
  with Inl e show ?thesis by simp
next
  case (Inr r)
  obtain v st where "r = (v, st)" by (cases r)
  with hoare_return [OF main_hoare fresh_start] Inr show ?thesis by simp
qed

subsection \<open>Failure, summary and selection\<close>

lemma distinct_plan: "distinct (plan a)"
  by (auto simp: plan_def)

lemma plan_effective_nonempty: "plan (effective a) \<noteq> []"
  by (auto simp: plan_def effective_def)

lemma failure_is_last:
  assumes "all_passed (butlast xs)" and "i < length xs" and "snd (xs ! i) \<noteq> Passed"
  shows "Suc i = length xs"
proof (rule ccontr)
  assume "Suc i \<noteq> length xs"
  with assms(2) have "i < length (butlast xs)" by simp
  with assms(1) have "snd (butlast xs ! i) = Passed"
    by (simp add: all_passed_def list_all_length)
  with \<open>i < length (butlast xs)\<close> assms(3) show False
    by (simp add: nth_butlast)
qed

lemma all_passed_nth: "all_passed xs \<Longrightarrow> i < length xs \<Longrightarrow> snd (xs ! i) = Passed"
  by (simp add: all_passed_def list_all_length)

lemma not_run_after_prefix:
  assumes "prefix xs ys" and "distinct ys"
  shows "set (drop (length xs) ys) \<inter> set xs = {}"
proof -
  from assms(1) obtain zs where "ys = xs @ zs"
    by (auto simp: prefix_def)
  with assms(2) show ?thesis by auto
qed

text \<open>
  C2. Whatever the options, the results of the commands and the files present: the
  steps that run are an initial part of the selected steps, in their order; a step that
  does not pass, because its function returned false or left through \<^verbatim>\<open>sys.exit\<close>, is
  the last step that runs, so that none of the selected steps after it is called; and
  the program then exits with code 1, its overall result being failure.
\<close>

theorem failure_stops_pipeline:
  "\<exists>c st. main env a (start fs) = Inl (c, st)
     \<and> prefix (map fst (steps st)) (plan (effective a))
     \<and> set (drop (length (steps st)) (plan (effective a))) \<inter> fst ` set (steps st) = {}
     \<and> (\<forall>i < length (steps st).
           snd (steps st ! i) \<noteq> Passed \<longrightarrow> Suc i = length (steps st) \<and> c = 1)"
proof -
  from main_spec [of env a fs] obtain c st
    where m: "main env a (start fs) = Inl (c, st)"
      and o: "outcome_spec (plan (effective a)) c st"
    by blast
  let ?full = "plan (effective a)"
  from o have pre: "prefix (map fst (steps st)) ?full"
    by (auto simp: outcome_spec_def failed_run_def)
  from not_run_after_prefix [OF pre distinct_plan]
  have nr: "set (drop (length (steps st)) ?full) \<inter> fst ` set (steps st) = {}"
    by simp
  have last: "Suc i = length (steps st) \<and> c = 1"
    if "i < length (steps st)" and "snd (steps st ! i) \<noteq> Passed" for i
  proof -
    from o that(1) have "all_passed (butlast (steps st))"
      by (auto simp: outcome_spec_def failed_run_def all_passed_def list_all_length nth_butlast)
    from failure_is_last [OF this that] have "Suc i = length (steps st)" .
    moreover from o that have "c = 1"
      by (auto simp: outcome_spec_def dest: all_passed_nth)
    ultimately show ?thesis by simp
  qed
  from m pre nr last show ?thesis by blast
qed

text \<open>
  The example of C2 with \<^verbatim>\<open>clean_build\<close> for A, \<^verbatim>\<open>install_npm_dependencies\<close> for B, whose
  command fails, and \<^verbatim>\<open>install_python_dependencies\<close> for C.
\<close>

theorem failure_stops_pipeline_witness:
  "main \<lparr>shell = (\<lambda>command fs. (if command = ''npm install'' then 1 else 0, fs))\<rparr>
        (no_flags\<lparr>clean := True, install := True\<rparr>) (start {})
   = Inl (1, \<lparr>files = {},
             printed = [Header ''Ticru.io Build System'', Header ''Checking Dependencies'',
                Success ''node: '', Success ''npm: '', Success ''python3: '',
                Success ''git: '', Header ''Cleaning Build Artifacts'',
                Header ''Installing NPM Dependencies'', Info ''Running npm install...'',
                Error ''Command failed: npm install'', Error ''Error: ''],
             steps = [(''clean_build'', Passed), (''install_npm_dependencies'', Aborted)]\<rparr>)
   \<and> plan (effective (no_flags\<lparr>clean := True, install := True\<rparr>))
       = [''clean_build'', ''install_npm_dependencies'', ''install_python_dependencies'']
   \<and> (\<exists>c st.
         main \<lparr>shell = (\<lambda>command fs. (if command = ''npm install'' then 1 else 0, fs))\<rparr>
           (no_flags\<lparr>clean := True, install := True\<rparr>) (start {}) = Inl (c, st)
         \<and> prefix (map fst (steps st))
              (plan (effective (no_flags\<lparr>clean := True, install := True\<rparr>)))
         \<and> set (drop (length (steps st))
                 (plan (effective (no_flags\<lparr>clean := True, install := True\<rparr>))))
             \<inter> fst ` set (steps st) = {}
         \<and> (\<forall>i < length (steps st).
               snd (steps st ! i) \<noteq> Passed \<longrightarrow> Suc i = length (steps st) \<and> c = 1))"
proof (intro conjI)
  show "main \<lparr>shell = (\<lambda>command fs. (if command = ''npm install'' then 1 else 0, fs))\<rparr>
        (no_flags\<lparr>clean := True, install := True\<rparr>) (start {})
   = Inl (1, \<lparr>files = {},
             printed = [Header ''Ticru.io Build System'', Header ''Checking Dependencies'',
                Success ''node: '', Success ''npm: '', Success ''python3: '',
                Success ''git: '', Header ''Cleaning Build Artifacts'',
                Header ''Installing NPM Dependencies'', Info ''Running npm install...'',
                Error ''Command failed: npm install'', Error ''Error: ''],
             steps = [(''clean_build'', Passed), (''install_npm_dependencies'', Aborted)]\<rparr>)"
    by (simp add: build_simps)
  show "plan (effective (no_flags\<lparr>clean := True, install := True\<rparr>))
       = [''clean_build'', ''install_npm_dependencies'', ''install_python_dependencies'']"
    by (simp add: plan_def effective_def no_flags_def)
  show "\<exists>c st.
         main \<lparr>shell = (\<lambda>command fs. (if command = ''npm install'' then 1 else 0, fs))\<rparr>
           (no_flags\<lparr>clean := True, install := True\<rparr>) (start {}) = Inl (c, st)
         \<and> prefix (map fst (steps st))
              (plan (effective (no_flags\<lparr>clean := True, install := True\<rparr>)))
         \<and> set (drop (length (steps st))
                 (plan (effective (no_flags\<lparr>clean := True, install := True\<rparr>))))
             \<inter> fst ` set (steps st) = {}
         \<and> (\<forall>i < length (steps st).
               snd (steps st ! i) \<noteq> Passed \<longrightarrow> Suc i = length (steps st) \<and> c = 1)"
    by (rule failure_stops_pipeline)
qed




lemma all_passed_no: "all_passed xs \<Longrightarrow> oc \<noteq> Passed \<Longrightarrow> (n, oc) \<notin> set xs"
  by (auto simp: all_passed_def list_all_iff)










text \<open>
  C7 as stated fails. An empty selection runs steps, and the run fails when one of them
  does: here \<^verbatim>\<open>pip install\<close>, the third step.
\<close>

theorem empty_selection_counterexample:
  "main \<lparr>shell = (\<lambda>command fs. (if command = ''pip install -r requirements.txt''
                                  then 1 else 0, fs))\<rparr>
        no_flags (start {''requirements.txt''})
   = Inl (1, \<lparr>files = {''requirements.txt''},
             printed = [Header ''Ticru.io Build System'', Header ''Checking Dependencies'',
                Success ''node: '', Success ''npm: '', Success ''python3: '',
                Success ''git: '', Header ''Cleaning Build Artifacts'',
                Header ''Installing NPM Dependencies'', Info ''Running npm install...'',
                Success ''NPM dependencies installed successfully'',
                Header ''Installing Python Dependencies'', Info ''Running pip install...'',
                Error ''Command failed: pip install -r requirements.txt'',
                Error ''Error: ''],
             steps = [(''clean_build'', Passed), (''install_npm_dependencies'', Passed),
                (''install_python_dependencies'', Aborted)]\<rparr>)"
  by (simp add: build_simps)

lemma effective_idem: "effective (effective a) = effective a"
  by (simp add: effective_def)

lemma main_effective: "main env a = main env (effective a)"
  unfolding main_def effective_def [symmetric]
  by (simp only: effective_idem)

text \<open>
  C7, amended. No run has an empty step sequence. Without any option \<^verbatim>\<open>main\<close> behaves
  as with \<^verbatim>\<open>--all\<close> and selects all eight steps; every selection holds at least one step;
  and unless a dependency is missing at least one step runs. The exit code is 0 exactly
  when no dependency is missing and every selected step ran and passed.
\<close>

theorem no_selection_runs_all:
  "main env no_flags = main env (no_flags\<lparr>all_flag := True\<rparr>)
   \<and> plan (effective no_flags)
       = [''clean_build'', ''install_npm_dependencies'', ''install_python_dependencies'',
          ''lint_code'', ''type_check'', ''build_frontend'', ''generate_build_info'',
          ''test_code'']
   \<and> plan (effective a) \<noteq> []
   \<and> (\<exists>c st. main env a (start fs) = Inl (c, st)
         \<and> (dependencies_missing st \<or> steps st \<noteq> [])
         \<and> (c = 0) = (\<not> dependencies_missing st
                        \<and> map fst (steps st) = plan (effective a)
                        \<and> all_passed (steps st)))"
proof (intro conjI)
  have "effective no_flags = no_flags\<lparr>all_flag := True\<rparr>"
    by (simp add: effective_def no_flags_def)
  with main_effective [of env no_flags]
  show "main env no_flags = main env (no_flags\<lparr>all_flag := True\<rparr>)"
    by simp
  show "plan (effective no_flags)
       = [''clean_build'', ''install_npm_dependencies'', ''install_python_dependencies'',
          ''lint_code'', ''type_check'', ''build_frontend'', ''generate_build_info'',
          ''test_code'']"
    by (simp add: plan_def effective_def no_flags_def)
  show ne: "plan (effective a) \<noteq> []"
    by (rule plan_effective_nonempty)
  from main_spec [of env a fs] obtain c st
    where m: "main env a (start fs) = Inl (c, st)"
      and o: "outcome_spec (plan (effective a)) c st"
    by blast
  let ?full = "plan (effective a)"
  from o consider
      (deps) "c = 1" "dependencies_missing st"
    | (abort) "c = 1" "failed_run ?full Aborted st"
    | (fail) "c = 1" "failed_run ?full Failed st"
    | (pass) "c = 0" "\<not> dependencies_missing st" "map fst (steps st) = ?full"
        "all_passed (steps st)"
    unfolding outcome_spec_def by blast
  then have "(dependencies_missing st \<or> steps st \<noteq> [])
         \<and> (c = 0) = (\<not> dependencies_missing st
                        \<and> map fst (steps st) = ?full \<and> all_passed (steps st))"
  proof cases
    case deps
    then show ?thesis by simp
  next
    case abort
    then have "steps st \<noteq> []" "(fst (last (steps st)), Aborted) \<in> set (steps st)"
      by (auto simp: failed_run_def) (metis last_in_set prod.collapse)
    with abort(1) all_passed_no [of "steps st" Aborted] show ?thesis by auto
  next
    case fail
    then have "steps st \<noteq> []" "(fst (last (steps st)), Failed) \<in> set (steps st)"
      by (auto simp: failed_run_def) (metis last_in_set prod.collapse)
    with fail(1) all_passed_no [of "steps st" Failed] show ?thesis by auto
  next
    case pass
    with ne have "steps st \<noteq> []" by auto
    with pass show ?thesis by simp
  qed
  with m show "\<exists>c st. main env a (start fs) = Inl (c, st)
         \<and> (dependencies_missing st \<or> steps st \<noteq> [])
         \<and> (c = 0) = (\<not> dependencies_missing st
                        \<and> map fst (steps st) = plan (effective a)
                        \<and> all_passed (steps st))"
    by blast
qed

text \<open>
  Only the tests selected, every command succeeding.
\<close>

theorem no_selection_runs_all_witness:
  "main \<lparr>shell = (\<lambda>command fs. (0, fs))\<rparr> (no_flags\<lparr>test := True\<rparr>) (start {})
   = Inl (0, \<lparr>files = {},
             printed = [Header ''Ticru.io Build System'', Header ''Checking Dependencies'',
                Success ''node: '', Success ''npm: '', Success ''python3: '',
                Success ''git: '', Header ''Running Tests'',
                Info ''Tests not configured yet'', Header ''Build Summary'',
                Print ''Duration'', Success ''Build completed successfully!''],
             steps = [(''test_code'', Passed)]\<rparr>)
   \<and> main \<lparr>shell = (\<lambda>command fs. (0, fs))\<rparr> no_flags
       = main \<lparr>shell = (\<lambda>command fs. (0, fs))\<rparr> (no_flags\<lparr>all_flag := True\<rparr>)
   \<and> plan (effective (no_flags\<lparr>test := True\<rparr>)) = [''test_code'']
   \<and> (\<exists>c st. main \<lparr>shell = (\<lambda>command fs. (0, fs))\<rparr> (no_flags\<lparr>test := True\<rparr>) (start {})
                = Inl (c, st)
         \<and> (dependencies_missing st \<or> steps st \<noteq> [])
         \<and> (c = 0) = (\<not> dependencies_missing st
                        \<and> map fst (steps st) = plan (effective (no_flags\<lparr>test := True\<rparr>))
                        \<and> all_passed (steps st)))"
proof -
  have run: "main \<lparr>shell = (\<lambda>command fs. (0, fs))\<rparr> (no_flags\<lparr>test := True\<rparr>) (start {})
   = Inl (0, \<lparr>files = {},
             printed = [Header ''Ticru.io Build System'', Header ''Checking Dependencies'',
                Success ''node: '', Success ''npm: '', Success ''python3: '',
                Success ''git: '', Header ''Running Tests'',
                Info ''Tests not configured yet'', Header ''Build Summary'',
                Print ''Duration'', Success ''Build completed successfully!''],
             steps = [(''test_code'', Passed)]\<rparr>)"
    by (simp add: build_simps)
  have p: "plan (effective (no_flags\<lparr>test := True\<rparr>)) = [''test_code'']"
    by (simp add: plan_def effective_def no_flags_def)
  from run p no_selection_runs_all [of "\<lparr>shell = (\<lambda>command fs. (0, fs))\<rparr>"
      "no_flags\<lparr>test := True\<rparr>" "{}"]
  show ?thesis by blast
qed

section \<open>Properties of the run command\<close>

lemmas sup_simps =
  run_def started_def step_def finished_def resume_def exits_def signal_handler_def
  handler_join_backend_def handler_join_frontend_def handler_exit_def join_backend_def
  join_frontend_def exit_code_def shutdowns_def

subsection \<open>Waiting for the two processes\<close>

lemma run_snoc: "run (es @ [e]) = step (run es) e"
  by (simp add: run_def)



lemma waiting_started: "waiting started"
  by (simp add: waiting_def started_def)

lemma waiting_step: "waiting s \<Longrightarrow> e \<noteq> Signal \<Longrightarrow> waiting (step s e)"
  by (cases e; cases "backend s"; cases "frontend s")
     (simp_all add: waiting_def step_def finished_def resume_def exits_def join_backend_def
        join_frontend_def)

lemma waiting_run: "Signal \<notin> set es \<Longrightarrow> waiting (run es)"
proof (induction es rule: rev_induct)
  case Nil
  show ?case by (simp add: run_def waiting_started)
next
  case (snoc e es)
  then have "waiting (run es)" and "e \<noteq> Signal" by auto
  then show ?case by (simp add: run_snoc waiting_step)
qed

lemma waiting_signal:
  assumes "waiting s" and "\<not> finished s"
  shows "backend_terminates (step s Signal) = 1 \<and> frontend_terminates (step s Signal) = 1
         \<and> control (step s Signal) \<notin> {JoinBackend, JoinFrontend, Returned}"
  using assms
  by (cases "backend s"; cases "frontend s")
     (simp_all add: waiting_def step_def finished_def signal_handler_def
        handler_join_backend_def handler_join_frontend_def handler_exit_def)

text \<open>
  C1 as stated fails. The frontend exits with code 1 while the backend is running:
  \<^verbatim>\<open>run\<close> stays blocked in the join of the backend and calls \<^verbatim>\<open>terminate\<close> on neither
  process, and no lapse of time changes that.
\<close>

theorem wait_any_counterexample:
  "run [FrontendExits 1]
     = \<lparr>backend = Running, frontend = Exited 1, backend_terminates = 0,
        frontend_terminates = 0, control = JoinBackend, echoed = []\<rparr>
   \<and> (\<forall>n. run (FrontendExits 1 # replicate n JoinTimeout)
          = \<lparr>backend = Running, frontend = Exited 1, backend_terminates = 0,
             frontend_terminates = 0, control = JoinBackend, echoed = []\<rparr>)"
proof (intro conjI allI)
  show 1: "run [FrontendExits 1]
     = \<lparr>backend = Running, frontend = Exited 1, backend_terminates = 0,
        frontend_terminates = 0, control = JoinBackend, echoed = []\<rparr>"
    by (simp add: sup_simps)
  fix n
  have "foldl step s (replicate n JoinTimeout) = s" if "control s = JoinBackend" for s
    using that by (induction n) (simp_all add: step_def finished_def)
  from this [of "run [FrontendExits 1]"] 1
  show "run (FrontendExits 1 # replicate n JoinTimeout)
          = \<lparr>backend = Running, frontend = Exited 1, backend_terminates = 0,
             frontend_terminates = 0, control = JoinBackend, echoed = []\<rparr>"
    by (simp add: run_def)
qed

text \<open>
  C1, amended. As long as no signal arrives, \<^verbatim>\<open>run\<close> calls \<^verbatim>\<open>terminate\<close> on neither
  process and echoes nothing. It waits for the backend while the backend is running,
  whatever the frontend does, and for the frontend once the backend has exited; it has
  returned exactly when both processes have exited by themselves, so that no process
  is running when it returns. A signal that arrives while it waits is handled at once:
  the handler calls \<^verbatim>\<open>terminate\<close> on both processes.
\<close>

theorem sequential_wait:
  assumes "Signal \<notin> set es"
  shows "backend_terminates (run es) = 0 \<and> frontend_terminates (run es) = 0
     \<and> echoed (run es) = []
     \<and> (control (run es) = JoinBackend) = (backend (run es) = Running)
     \<and> (control (run es) = JoinFrontend)
         = (backend (run es) \<noteq> Running \<and> frontend (run es) = Running)
     \<and> (control (run es) = Returned)
         = (backend (run es) \<noteq> Running \<and> frontend (run es) \<noteq> Running)
     \<and> (finished (run es)
         \<or> backend_terminates (step (run es) Signal) = 1
           \<and> frontend_terminates (step (run es) Signal) = 1
           \<and> control (step (run es) Signal) \<notin> {JoinBackend, JoinFrontend, Returned})"
proof -
  from waiting_run [OF assms] have w: "waiting (run es)" .
  then have "backend_terminates (run es) = 0 \<and> frontend_terminates (run es) = 0
     \<and> echoed (run es) = []
     \<and> (control (run es) = JoinBackend) = (backend (run es) = Running)
     \<and> (control (run es) = JoinFrontend)
         = (backend (run es) \<noteq> Running \<and> frontend (run es) = Running)
     \<and> (control (run es) = Returned)
         = (backend (run es) \<noteq> Running \<and> frontend (run es) \<noteq> Running)"
    by (auto simp: waiting_def)
  moreover from waiting_signal [OF w]
  have "finished (run es)
         \<or> backend_terminates (step (run es) Signal) = 1
           \<and> frontend_terminates (step (run es) Signal) = 1
           \<and> control (step (run es) Signal) \<notin> {JoinBackend, JoinFrontend, Returned}"
    by blast
  ultimately show ?thesis by blast
qed

text \<open>
  The frontend exits first, the backend after it.
\<close>

theorem sequential_wait_witness:
  "Signal \<notin> set [FrontendExits 1, BackendExits 0]
   \<and> run [FrontendExits 1, BackendExits 0]
       = \<lparr>backend = Exited 0, frontend = Exited 1, backend_terminates = 0,
          frontend_terminates = 0, control = Returned, echoed = []\<rparr>
   \<and> echoed (run [FrontendExits 1, BackendExits 0]) = []
   \<and> (control (run [FrontendExits 1, BackendExits 0]) = Returned)
       = (backend (run [FrontendExits 1, BackendExits 0]) \<noteq> Running
          \<and> frontend (run [FrontendExits 1, BackendExits 0]) \<noteq> Running)"
proof -
  have 1: "Signal \<notin> set [FrontendExits 1, BackendExits 0]" by simp
  have 2: "run [FrontendExits 1, BackendExits 0]
       = \<lparr>backend = Exited 0, frontend = Exited 1, backend_terminates = 0,
          frontend_terminates = 0, control = Returned, echoed = []\<rparr>"
    by (simp add: sup_simps)
  from 1 2 sequential_wait [OF 1] show ?thesis by blast
qed

subsection \<open>The shutdown sequence\<close>















subsection \<open>Exit code and repeated signals\<close>












end
